theory Spec2Isabelle
  imports Main
begin

section \<open>The private blockchain of \<open>src/blockchain.js\<close>\<close>

text \<open>
  The class \<open>Blockchain\<close> keeps an array \<open>chain\<close> of blocks and a counter \<open>height\<close>.
  Every method returns a promise. A method is modelled as a function from the store
  it is called on to the store it leaves and the state of its promise.
  The executors of \<open>_addBlock\<close> and \<open>submitStar\<close> run from their first statement to the
  call that settles the promise without a suspension that another call could use:
  \<open>_addBlock\<close> has no \<open>await\<close>, and the \<open>await\<close> of \<open>submitStar\<close> is on a promise that
  \<open>_addBlock\<close> has settled already. \<open>validateChain\<close> awaits \<open>block.validate()\<close> once for
  each block; the model walks the chain as it stands when the method is called.

  The collaborators that are not part of \<open>blockchain.js\<close> are parameters of the model:
  \<^item> \<open>SHA256\<close>: the digest \<open>SHA256(JSON.stringify(block)).toString()\<close> of a block;
  \<^item> \<open>verify\<close>: \<open>bitcoinMessage.verify(message, address, signature)\<close>, a boolean;
  \<^item> \<open>validate\<close>: what \<open>block.validate()\<close> of \<open>block.js\<close> resolves with, a boolean;
  \<^item> \<open>now\<close>: one reading of the clock,
    \<open>new Date().getTime().toString().slice(0, -3)\<close>, a string of seconds.
\<close>

subsection \<open>Promises\<close>

text \<open>
  A promise is settled once: \<open>resolve\<close> and \<open>reject\<close> act on a pending promise only.
\<close>

datatype ('v, 'e) promise = Pending | Resolved 'v | Rejected 'e

definition resolve :: "'v \<Rightarrow> ('v, 'e) promise \<Rightarrow> ('v, 'e) promise" where
  "resolve v p = (case p of Pending \<Rightarrow> Resolved v | _ \<Rightarrow> p)"

definition reject :: "'e \<Rightarrow> ('v, 'e) promise \<Rightarrow> ('v, 'e) promise" where
  "reject e p = (case p of Pending \<Rightarrow> Rejected e | _ \<Rightarrow> p)"

subsection \<open>Blocks and the chain store\<close>

text \<open>
  The data handed to the \<open>Block\<close> constructor: \<open>'Genesis Block'\<close> for the genesis block,
  and the object \<open>{address, message, signature, star}\<close> for a star (the four
  fields in this order). The star itself is opaque to the chain.
\<close>

datatype bdata =
    Text string
  | StarData string string string string

text \<open>
  A JavaScript number as far as this code meets one: \<open>NaN\<close> or an integer. The
  integers are unbounded here; a double is exact up to \<open>2^53\<close>, and beyond that bound
  the rounding of a timestamp does not change on which side of 300 the elapsed time
  lies.
\<close>

datatype jsnum = NaN | Num int

fun truthy_num :: "jsnum \<Rightarrow> bool" where
  "truthy_num NaN = False"
| "truthy_num (Num n) = (n \<noteq> 0)"

text \<open>
  The values a field of a block can hold. The chain is an array of objects that
  any holder of the \<open>Blockchain\<close> can write to, and the validator is there for chains
  that have been written to, so the two hash fields are not restricted to the
  strings that \<open>_addBlock\<close> stores. An object is given by its reference.
\<close>

datatype jsvalue =
    Undefined
  | Null
  | Bool bool
  | Number jsnum
  | Str string
  | Object nat

text \<open>
  \<open>a !== b\<close>: values of different types or of different contents are unequal,
  objects are compared by reference, and \<open>NaN\<close> is unequal to every value, itself
  included.
\<close>

definition strict_neq :: "jsvalue \<Rightarrow> jsvalue \<Rightarrow> bool" where
  "strict_neq a b = (a \<noteq> b \<or> a = Number NaN)"

text \<open>
  JavaScript's truthiness: \<open>undefined\<close>, \<open>null\<close>, \<open>false\<close>, \<open>NaN\<close>, zero and the empty
  string are falsy.
\<close>

fun truthy :: "jsvalue \<Rightarrow> bool" where
  "truthy Undefined = False"
| "truthy Null = False"
| "truthy (Bool b) = b"
| "truthy (Number n) = truthy_num n"
| "truthy (Str s) = (s \<noteq> [])"
| "truthy (Object r) = True"

text \<open>
  A block has the fields \<open>hash\<close>, \<open>height\<close>, \<open>body\<close>, \<open>time\<close> and \<open>previousBlockHash\<close>.
  The height is an integer and the time a string or \<open>null\<close> (\<open>None\<close>).
\<close>

record block =
  hash :: jsvalue
  height :: int
  body :: bdata
  time :: "string option"
  previousBlockHash :: jsvalue

text \<open>
  Modelled from the spec: the constructor \<open>new BlockClass.Block({data: d})\<close> of
  \<open>block.js\<close>, which is not among the sources. It gives "a Block with only its payload
  populated": no hash, no previous hash, no time, height 0.
\<close>

definition Block :: "bdata \<Rightarrow> block" where
  "Block d = \<lparr>hash = Null, height = 0, body = d, time = None, previousBlockHash = Null\<rparr>"

record blockchain =
  chain :: "block list"
  chain_height :: int

text \<open>What the promise of \<open>_addBlock\<close> is resolved with: \<open>self\<close> or the block.\<close>

datatype added = Self blockchain | TheBlock block

subsection \<open>\<open>_addBlock\<close>\<close>

definition addBlock ::
  "(block \<Rightarrow> string) \<Rightarrow> string \<Rightarrow> blockchain \<Rightarrow> block \<Rightarrow> blockchain \<times> (added, string) promise"
where
  "addBlock SHA256 now self block =
    (if length (chain self) = 0 then
       let block = block\<lparr>time := Some now\<rparr>;
           block = block\<lparr>height := 0\<rparr>;
           hash = SHA256 block;
           block = block\<lparr>hash := Str hash\<rparr>;
           self = self\<lparr>chain_height := 0\<rparr>;
           self = self\<lparr>chain := chain self @ [block]\<rparr>
       in (self, resolve (Self self) Pending)
     else
       let block = block\<lparr>time := Some now\<rparr>;
           previousBlock = find (\<lambda>block. height block = chain_height self) (chain self);
           block = (case previousBlock of
                      None \<Rightarrow> block
                    | Some p \<Rightarrow>
                        if \<not> truthy (hash p) then block
                        else block\<lparr>previousBlockHash := hash p\<rparr>);
           block = block\<lparr>height := chain_height self + 1\<rparr>;
           hash = SHA256 block;
           block = block\<lparr>hash := Str hash\<rparr>;
           self = self\<lparr>chain := chain self @ [block]\<rparr>;
           self = self\<lparr>chain_height := chain_height self + 1\<rparr>
       in (self, resolve (TheBlock block) Pending))"

text \<open>
  The constructor sets \<open>chain = []\<close> and \<open>height = -1\<close> and calls \<open>initializeChain\<close>,
  which runs up to and through its call of \<open>_addBlock\<close> before the constructor
  returns.
\<close>

definition emptyStore :: blockchain where
  "emptyStore = \<lparr>chain = [], chain_height = - 1\<rparr>"

definition initializeChain :: "(block \<Rightarrow> string) \<Rightarrow> string \<Rightarrow> blockchain \<Rightarrow> blockchain" where
  "initializeChain SHA256 now self =
    (if chain_height self = - 1 then
       let block = Block (Text ''Genesis Block'')
       in fst (addBlock SHA256 now self block)
     else self)"

definition Blockchain :: "(block \<Rightarrow> string) \<Rightarrow> string \<Rightarrow> blockchain" where
  "Blockchain SHA256 now = initializeChain SHA256 now emptyStore"

text \<open>
  A sequence of admissions: \<open>_addBlock\<close> called once for each block of a list, each
  call with its own reading of the clock. The blocks are values: every caller of
  \<open>_addBlock\<close> (\<open>initializeChain\<close>, \<open>submitStar\<close>) passes a block it has just
  constructed, so no block is shared with the chain or passed twice.
\<close>

fun admissions ::
  "(block \<Rightarrow> string) \<Rightarrow> blockchain \<Rightarrow> (string \<times> block) list \<Rightarrow> blockchain"
where
  "admissions SHA256 self [] = self"
| "admissions SHA256 self ((now, block) # rest) =
     admissions SHA256 (fst (addBlock SHA256 now self block)) rest"

subsection \<open>\<open>submitStar\<close>\<close>

text \<open>
  \<open>message.split(':')\<close>: the pieces of the string between the separators, in order;
  a string without separator (the empty string too) gives one piece.
\<close>

fun split_from :: "char \<Rightarrow> string \<Rightarrow> string \<Rightarrow> string list" where
  "split_from sep piece [] = [piece]"
| "split_from sep piece (c # cs) =
     (if c = sep then piece # split_from sep [] cs
      else split_from sep (piece @ [c]) cs)"

definition split :: "char \<Rightarrow> string \<Rightarrow> string list" where
  "split sep s = split_from sep [] s"

text \<open>The subtraction and the comparison of \<open>currentTime - messageTime < 300\<close>.\<close>

fun minus_js :: "jsnum \<Rightarrow> jsnum \<Rightarrow> jsnum" where
  "minus_js (Num a) (Num b) = Num (a - b)"
| "minus_js _ _ = NaN"

fun less_js :: "jsnum \<Rightarrow> jsnum \<Rightarrow> bool" where
  "less_js (Num a) (Num b) = (a < b)"
| "less_js _ _ = False"

text \<open>
  A string is the sequence of the bytes of its UTF-8 encoding. The white space
  that \<open>parseInt\<close> skips is ECMAScript's \<open>WhiteSpace\<close> and \<open>LineTerminator\<close>: the
  characters U+0009 to U+000D and U+0020 (one byte each), U+00A0 (two bytes), and
  U+1680, U+2000 to U+200A, U+2028, U+2029, U+202F, U+205F, U+3000 and U+FEFF
  (three bytes each). \<open>whiteSpaceLength\<close> is the number of bytes of the white-space
  character a string starts with, and 0 when it starts with none.
\<close>

definition whiteSpaceLength :: "string \<Rightarrow> nat" where
  "whiteSpaceLength s =
    (let b = (map of_char (take 3 s) :: nat list) in
     if take 1 b \<in> set [[0x09], [0x0A], [0x0B], [0x0C], [0x0D], [0x20]] then 1
     else if take 2 b = [0xC2, 0xA0] then 2
     else if b \<in> set [[0xE1, 0x9A, 0x80], [0xE2, 0x80, 0xA8], [0xE2, 0x80, 0xA9],
                        [0xE2, 0x80, 0xAF], [0xE2, 0x81, 0x9F], [0xE3, 0x80, 0x80],
                        [0xEF, 0xBB, 0xBF]] then 3
     else if length b = 3 \<and> take 2 b = [0xE2, 0x80] \<and> 0x80 \<le> b ! 2 \<and> b ! 2 \<le> 0x8A
       then 3
     else 0)"

function trimStart :: "string \<Rightarrow> string" where
  "trimStart s =
    (if whiteSpaceLength s = 0 then s else trimStart (drop (whiteSpaceLength s) s))"
  by pat_completeness auto
termination
proof (relation "measure length")
  show "wf (measure length)"
    by simp
next
  fix s :: string
  assume white: "whiteSpaceLength s \<noteq> 0"
  have "s \<noteq> []"
  proof
    assume "s = []"
    then have "whiteSpaceLength s = 0"
      by (simp add: whiteSpaceLength_def)
    with white show False
      by simp
  qed
  with white show "(drop (whiteSpaceLength s) s, s) \<in> measure length"
    by simp
qed

text \<open>
  \<open>parseInt(string)\<close> with no radix, after ECMAScript: leading white space is dropped,
  then a sign, then the prefix \<open>0x\<close> or \<open>0X\<close> (which makes the radix 16, otherwise 10);
  the longest run of digits of the radix is the number, and without a digit the
  result is \<open>NaN\<close>. The digits are the ASCII digits and letters.
\<close>

definition digitOf :: "char \<Rightarrow> nat option" where
  "digitOf c =
    (let n = (of_char c :: nat) in
     if 48 \<le> n \<and> n \<le> 57 then Some (n - 48)
     else if 97 \<le> n \<and> n \<le> 122 then Some (n - 87)
     else if 65 \<le> n \<and> n \<le> 90 then Some (n - 55)
     else None)"

definition isRadixDigit :: "nat \<Rightarrow> char \<Rightarrow> bool" where
  "isRadixDigit R c = (case digitOf c of None \<Rightarrow> False | Some d \<Rightarrow> d < R)"

definition radixValue :: "nat \<Rightarrow> string \<Rightarrow> nat" where
  "radixValue R Z = foldl (\<lambda>acc c. acc * R + (case digitOf c of None \<Rightarrow> 0 | Some d \<Rightarrow> d)) 0 Z"

definition parseInt :: "string \<Rightarrow> jsnum" where
  "parseInt inputString =
    (let S = trimStart inputString;
         sign = (case S of [] \<Rightarrow> (1::int) | c # _ \<Rightarrow> if c = CHR ''-'' then - 1 else 1);
         S = (case S of [] \<Rightarrow> S | c # S' \<Rightarrow> if c = CHR ''+'' \<or> c = CHR ''-'' then S' else S);
         stripPrefix = (case S of c # d # _ \<Rightarrow> c = CHR ''0'' \<and> (d = CHR ''x'' \<or> d = CHR ''X'')
                        | _ \<Rightarrow> False);
         R = (if stripPrefix then 16 else 10);
         S = (if stripPrefix then drop 2 S else S);
         Z = takeWhile (isRadixDigit R) S
     in if Z = [] then NaN else Num (sign * int (radixValue R Z)))"

text \<open>
  \<open>submitStar(address, message, signature, star)\<close>. The clock is read twice: \<open>now\<close> is
  the reading of \<open>submitStar\<close> itself and \<open>now'\<close> the later one of \<open>_addBlock\<close>. An
  \<open>await\<close> on a promise that is rejected throws inside the executor, and the promise
  of \<open>submitStar\<close> is then never settled.
\<close>

definition submitStar ::
  "(string \<Rightarrow> string \<Rightarrow> string \<Rightarrow> bool) \<Rightarrow> (block \<Rightarrow> string) \<Rightarrow> string \<Rightarrow> string \<Rightarrow>
   blockchain \<Rightarrow> string \<Rightarrow> string \<Rightarrow> string \<Rightarrow> string \<Rightarrow>
   blockchain \<times> (added, string) promise"
where
  "submitStar verify SHA256 now now' self address message signature star =
    (let messageComponents = split CHR '':'' message in
     if length messageComponents = 3 then
       let messageTime = parseInt (split CHR '':'' message ! 1);
           currentTime = parseInt now
       in
       if truthy_num messageTime \<and> less_js (minus_js currentTime messageTime) (Num 300) then
         if \<not> verify message address signature then
           (self, reject ''Bitcoin message unverified.'' Pending)
         else
           let blockData = StarData address message signature star;
               block = Block blockData
           in (case addBlock SHA256 now' self block of
                 (self, Resolved createdBlock) \<Rightarrow> (self, resolve createdBlock Pending)
               | (self, _) \<Rightarrow> (self, Pending))
       else (self, reject ''Incorrect time'' Pending)
     else (self, reject ''Incorrect message format'' Pending))"

subsection \<open>\<open>validateChain\<close>\<close>

text \<open>The two kinds of entry of \<open>errorLog\<close>, with their \<open>error\<close> texts.\<close>

datatype chain_error =
    DataTempered (invalidBlock: block)
  | HashMismatch (hashOnPreviousBlock: jsvalue) (invalidBlock: block)

fun error :: "chain_error \<Rightarrow> string" where
  "error (DataTempered b) = ''Block data was tempered''"
| "error (HashMismatch h b) =
     ''Previous block hash doesn't match the hash of the previous block''"

text \<open>
  The loop \<open>for (const block of self.chain)\<close>, with the variables \<open>previousBlockHash\<close>
  and \<open>errorLog\<close> as accumulators. In the branch of a valid block the variable is
  assigned first and compared afterwards with \<open>!==\<close>, as in the source.
\<close>

fun validateLoop ::
  "(block \<Rightarrow> bool) \<Rightarrow> jsvalue \<Rightarrow> chain_error list \<Rightarrow> block list \<Rightarrow> chain_error list"
where
  "validateLoop validate previousBlockHash' errorLog [] = errorLog"
| "validateLoop validate previousBlockHash' errorLog (block # rest) =
     (let blockIsValid = validate block in
      if \<not> blockIsValid then
        validateLoop validate previousBlockHash'
          (errorLog @ [DataTempered block]) rest
      else
        let previousBlockHash' = previousBlockHash block in
        if height block > 0 \<and> strict_neq (previousBlockHash block) previousBlockHash' then
          validateLoop validate previousBlockHash'
            (errorLog @ [HashMismatch previousBlockHash' block]) rest
        else
          validateLoop validate previousBlockHash' errorLog rest)"

text \<open>
  After the loop, \<open>reject(errorLog)\<close> is called when the log is not empty, and
  \<open>resolve('Chain is valid')\<close> is called in every case. The store is only read: it is
  returned as it was.
\<close>

definition validateChain ::
  "(block \<Rightarrow> bool) \<Rightarrow> blockchain \<Rightarrow> blockchain \<times> (string, chain_error list) promise"
where
  "validateChain validate self =
    (let errorLog = validateLoop validate (Str '''') [] (chain self);
         p = Pending;
         p = (if length errorLog > 0 then reject errorLog p else p);
         p = resolve ''Chain is valid'' p
     in (self, p))"

text \<open>
  The validator as the specification words it (section 4.3): the recorded previous
  hash of a valid block is compared with \<open>expectedPreviousHash\<close> first, and
  \<open>expectedPreviousHash\<close> is advanced to the block's \<open>previousHash\<close> field afterwards;
  it is not advanced after a block that fails its self-validation.
\<close>

fun validateLoop_spec ::
  "(block \<Rightarrow> bool) \<Rightarrow> jsvalue \<Rightarrow> chain_error list \<Rightarrow> block list \<Rightarrow> chain_error list"
where
  "validateLoop_spec validate expectedPreviousHash errorLog [] = errorLog"
| "validateLoop_spec validate expectedPreviousHash errorLog (block # rest) =
     (if \<not> validate block then
        validateLoop_spec validate expectedPreviousHash
          (errorLog @ [DataTempered block]) rest
      else
        validateLoop_spec validate (previousBlockHash block)
          (if height block > 0 \<and> strict_neq (previousBlockHash block) expectedPreviousHash
           then errorLog @ [HashMismatch expectedPreviousHash block]
           else errorLog)
          rest)"

text \<open>
  What one turn of the loop of \<open>validateChain\<close> adds to the log. The comparison of
  the source is between the block's \<open>previousBlockHash\<close> and the variable that has just
  been assigned that same field.
\<close>

definition turn_log :: "(block \<Rightarrow> bool) \<Rightarrow> block \<Rightarrow> chain_error list" where
  "turn_log validate block =
    (if \<not> validate block then [DataTempered block]
     else if height block > 0 \<and> strict_neq (previousBlockHash block) (previousBlockHash block)
       then [HashMismatch (previousBlockHash block) block]
     else [])"

subsection \<open>The invariant of the chain store\<close>

text \<open>
  What construction establishes and every admission keeps: the chain is not empty,
  heights are indices, the counter is the last index, every stored hash is a
  truthy value, the genesis block has no previous hash, and every later block
  carries the hash of the block before it.
\<close>

definition store_inv :: "blockchain \<Rightarrow> bool" where
  "store_inv s =
    (chain s \<noteq> [] \<and>
     (\<forall>i<length (chain s). height (chain s ! i) = int i) \<and>
     chain_height s = int (length (chain s)) - 1 \<and>
     (\<forall>i<length (chain s). truthy (hash (chain s ! i))) \<and>
     previousBlockHash (chain s ! 0) = Null \<and>
     (\<forall>i<length (chain s). 0 < i \<longrightarrow>
        previousBlockHash (chain s ! i) = hash (chain s ! (i - 1))))"

section \<open>Properties of the validator\<close>

text \<open>A value is strictly unequal to itself exactly when it is \<open>NaN\<close>.\<close>

lemma strict_neq_self: "strict_neq a a \<longleftrightarrow> a = Number NaN"
  by (simp add: strict_neq_def)

text \<open>
  The log of the loop is the log it started with, followed by what each turn adds,
  in the order of the chain; the value the variable \<open>previousBlockHash\<close> starts with
  does not matter.
\<close>

lemma validateLoop_log:
  "validateLoop validate p errorLog blocks =
     errorLog @ concat (map (turn_log validate) blocks)"
  by (induction blocks arbitrary: p errorLog) (simp_all add: turn_log_def Let_def)

lemma HashMismatch_in_turn_log:
  "HashMismatch h b \<in> set (turn_log validate x) \<longleftrightarrow>
     x = b \<and> validate b \<and> height b > 0 \<and> previousBlockHash b = Number NaN \<and>
     h = Number NaN"
  by (auto simp: turn_log_def strict_neq_self)

lemma HashMismatch_in_validateLoop:
  "HashMismatch h b \<in> set (validateLoop validate p [] blocks) \<longleftrightarrow>
     b \<in> set blocks \<and> validate b \<and> height b > 0 \<and>
     previousBlockHash b = Number NaN \<and> h = Number NaN"
  by (auto simp: validateLoop_log HashMismatch_in_turn_log)

lemma validateChain_outcome:
  "validateChain validate self =
     (self,
      if concat (map (turn_log validate) (chain self)) = [] then Resolved ''Chain is valid''
      else Rejected (concat (map (turn_log validate) (chain self))))"
  by (simp add: validateChain_def validateLoop_log resolve_def reject_def Let_def)

text \<open>
  Claim C2, as the code has it. \<open>validateChain\<close> records a "broken linkage" entry for
  a block exactly when the block passes its self-validation, its height is above 0
  and its \<open>previousBlockHash\<close> is \<open>NaN\<close>: the variable \<open>previousBlockHash\<close> is assigned the
  block's own field just before the two are compared with \<open>!==\<close>, and \<open>NaN\<close> is the one
  value that differs from itself. The entry then names \<open>NaN\<close> as the hash of the
  previous block. On a chain in which no block has \<open>NaN\<close> as its previous hash (the
  chains whose previous hashes are strings or \<open>null\<close> among them) no such entry is
  recorded, neither in the log of the loop nor in a log the promise is rejected
  with.
\<close>

theorem validateChain_broken_linkage_only_NaN:
  "(HashMismatch h b \<in> set (validateLoop validate (Str '''') [] (chain self)) \<longleftrightarrow>
      b \<in> set (chain self) \<and> validate b \<and> height b > 0 \<and>
      previousBlockHash b = Number NaN \<and> h = Number NaN) \<and>
   (snd (validateChain validate self) = Rejected errorLog \<longrightarrow>
      (HashMismatch h b \<in> set errorLog \<longleftrightarrow>
         b \<in> set (chain self) \<and> validate b \<and> height b > 0 \<and>
         previousBlockHash b = Number NaN \<and> h = Number NaN)) \<and>
   ((\<forall>x \<in> set (chain self). previousBlockHash x \<noteq> Number NaN) \<longrightarrow>
      HashMismatch h b \<notin> set (validateLoop validate (Str '''') [] (chain self)) \<and>
      (snd (validateChain validate self) = Rejected errorLog \<longrightarrow>
         HashMismatch h b \<notin> set errorLog))"
proof -
  have log: "validateLoop validate (Str '''') [] (chain self) =
      concat (map (turn_log validate) (chain self))"
    by (simp add: validateLoop_log)
  have rej: "snd (validateChain validate self) = Rejected errorLog \<Longrightarrow>
      errorLog = validateLoop validate (Str '''') [] (chain self)"
    by (simp add: validateChain_outcome log split: if_splits)
  show ?thesis
    using rej by (auto simp: HashMismatch_in_validateLoop)
qed

text \<open>
  A chain of two self-valid blocks whose second block names a previous hash that
  is not the genesis block's, and a third block that fails its self-validation.
  No previous hash is \<open>NaN\<close>, and the log the promise is rejected with holds the
  third block alone.
\<close>

theorem validateChain_broken_linkage_only_NaN_witness:
  "snd (validateChain (\<lambda>b. height b < 2)
     \<lparr>chain =
        [\<lparr>hash = Str ''h0'', height = 0, body = Text ''Genesis Block'',
          time = Some ''1700000000'', previousBlockHash = Null\<rparr>,
         \<lparr>hash = Str ''h1'', height = 1, body = Text ''a star'',
          time = Some ''1700000100'', previousBlockHash = Str ''bogus''\<rparr>,
         \<lparr>hash = Str ''h2'', height = 2, body = Text ''another star'',
          time = Some ''1700000200'', previousBlockHash = Str ''h1''\<rparr>],
      chain_height = 2\<rparr>) =
   Rejected [DataTempered \<lparr>hash = Str ''h2'', height = 2, body = Text ''another star'',
          time = Some ''1700000200'', previousBlockHash = Str ''h1''\<rparr>] \<and>
   HashMismatch (Str ''h0'')
     \<lparr>hash = Str ''h1'', height = 1, body = Text ''a star'',
      time = Some ''1700000100'', previousBlockHash = Str ''bogus''\<rparr>
   \<notin> set [DataTempered \<lparr>hash = Str ''h2'', height = 2, body = Text ''another star'',
          time = Some ''1700000200'', previousBlockHash = Str ''h1''\<rparr>]"
  using validateChain_broken_linkage_only_NaN
    [of "Str ''h0''"
        "\<lparr>hash = Str ''h1'', height = 1, body = Text ''a star'',
          time = Some ''1700000100'', previousBlockHash = Str ''bogus''\<rparr>"
        "\<lambda>b. height b < 2"
        "\<lparr>chain =
        [\<lparr>hash = Str ''h0'', height = 0, body = Text ''Genesis Block'',
          time = Some ''1700000000'', previousBlockHash = Null\<rparr>,
         \<lparr>hash = Str ''h1'', height = 1, body = Text ''a star'',
          time = Some ''1700000100'', previousBlockHash = Str ''bogus''\<rparr>,
         \<lparr>hash = Str ''h2'', height = 2, body = Text ''another star'',
          time = Some ''1700000200'', previousBlockHash = Str ''h1''\<rparr>],
      chain_height = 2\<rparr>"
        "[DataTempered \<lparr>hash = Str ''h2'', height = 2, body = Text ''another star'',
          time = Some ''1700000200'', previousBlockHash = Str ''h1''\<rparr>]"]
  by (simp add: validateChain_def resolve_def reject_def strict_neq_def)

text \<open>
  Claim C2, as it is stated, fails: the "broken linkage" branch can be reached. On
  the chain of a genesis block and a self-valid block at height 1 whose
  \<open>previousBlockHash\<close> is \<open>NaN\<close>, the comparison of the field with the variable that was
  just assigned from it is true, the entry is recorded, and the promise is
  rejected with it.
\<close>

theorem validateChain_broken_linkage_reached:
  "snd (validateChain (\<lambda>b. True)
     \<lparr>chain =
        [\<lparr>hash = Str ''h0'', height = 0, body = Text ''Genesis Block'',
          time = Some ''1700000000'', previousBlockHash = Null\<rparr>,
         \<lparr>hash = Str ''h1'', height = 1, body = Text ''a star'',
          time = Some ''1700000100'', previousBlockHash = Number NaN\<rparr>],
      chain_height = 1\<rparr>) =
   Rejected
     [HashMismatch (Number NaN)
        \<lparr>hash = Str ''h1'', height = 1, body = Text ''a star'',
         time = Some ''1700000100'', previousBlockHash = Number NaN\<rparr>]"
  by (simp add: validateChain_def resolve_def reject_def strict_neq_def)

text \<open>
  Claim C1. The specification has the validator record a "broken linkage" entry
  for a self-valid block above height 0 whose previous hash differs from the
  expectation carried forward. On the chain of a genesis block and a self-valid
  block at height 1 whose previous hash is \<open>bogus\<close>, the validator of the
  specification records that entry, and \<open>validateChain\<close> records nothing and resolves
  with \<open>Chain is valid\<close>.
\<close>

theorem validateChain_misses_broken_linkage:
  "validateChain (\<lambda>b. True)
     \<lparr>chain =
        [\<lparr>hash = Str ''h0'', height = 0, body = Text ''Genesis Block'',
          time = Some ''1700000000'', previousBlockHash = Null\<rparr>,
         \<lparr>hash = Str ''h1'', height = 1, body = Text ''a star'',
          time = Some ''1700000100'', previousBlockHash = Str ''bogus''\<rparr>],
      chain_height = 1\<rparr> =
   (\<lparr>chain =
        [\<lparr>hash = Str ''h0'', height = 0, body = Text ''Genesis Block'',
          time = Some ''1700000000'', previousBlockHash = Null\<rparr>,
         \<lparr>hash = Str ''h1'', height = 1, body = Text ''a star'',
          time = Some ''1700000100'', previousBlockHash = Str ''bogus''\<rparr>],
      chain_height = 1\<rparr>,
    Resolved ''Chain is valid'') \<and>
   validateLoop_spec (\<lambda>b. True) (Str '''') []
     [\<lparr>hash = Str ''h0'', height = 0, body = Text ''Genesis Block'',
       time = Some ''1700000000'', previousBlockHash = Null\<rparr>,
      \<lparr>hash = Str ''h1'', height = 1, body = Text ''a star'',
       time = Some ''1700000100'', previousBlockHash = Str ''bogus''\<rparr>] =
   [HashMismatch Null
      \<lparr>hash = Str ''h1'', height = 1, body = Text ''a star'',
       time = Some ''1700000100'', previousBlockHash = Str ''bogus''\<rparr>]"
  by (simp add: validateChain_def resolve_def reject_def strict_neq_def)

text \<open>
  Claim C3. The specification has the validator fulfil its promise with the list
  of discrepancies. On a chain whose only block fails its self-validation,
  \<open>validateChain\<close> rejects its promise with the list; the later call of \<open>resolve\<close>
  finds the promise settled. The store is returned as it was.
\<close>

theorem validateChain_rejects_with_the_log:
  "validateChain (\<lambda>b. False)
     \<lparr>chain =
        [\<lparr>hash = Str ''h0'', height = 0, body = Text ''Genesis Block'',
          time = Some ''1700000000'', previousBlockHash = Null\<rparr>],
      chain_height = 0\<rparr> =
   (\<lparr>chain =
        [\<lparr>hash = Str ''h0'', height = 0, body = Text ''Genesis Block'',
          time = Some ''1700000000'', previousBlockHash = Null\<rparr>],
      chain_height = 0\<rparr>,
    Rejected
      [DataTempered
         \<lparr>hash = Str ''h0'', height = 0, body = Text ''Genesis Block'',
          time = Some ''1700000000'', previousBlockHash = Null\<rparr>])"
  by (simp add: validateChain_def resolve_def reject_def)

section \<open>Properties of admission\<close>

lemma addBlock_empty:
  "chain self = [] \<Longrightarrow>
   addBlock SHA256 now self block =
     (let b = block\<lparr>time := Some now, height := 0\<rparr>;
          s = \<lparr>chain = [b\<lparr>hash := Str (SHA256 b)\<rparr>], chain_height = 0\<rparr>
      in (s, Resolved (Self s)))"
  by (simp add: addBlock_def resolve_def Let_def)

lemma addBlock_nonempty:
  "chain self \<noteq> [] \<Longrightarrow>
   addBlock SHA256 now self block =
     (let prev = (case find (\<lambda>b. height b = chain_height self) (chain self) of
                    None \<Rightarrow> previousBlockHash block
                  | Some p \<Rightarrow> if truthy (hash p) then hash p else previousBlockHash block);
          b = block\<lparr>time := Some now, previousBlockHash := prev,
                    height := chain_height self + 1\<rparr>;
          b' = b\<lparr>hash := Str (SHA256 b)\<rparr>
      in (\<lparr>chain = chain self @ [b'], chain_height = chain_height self + 1\<rparr>,
          Resolved (TheBlock b')))"
  by (simp add: addBlock_def resolve_def Let_def split: option.splits)

text \<open>\<open>_addBlock\<close> settles its promise in every case, and resolves it.\<close>

lemma addBlock_resolved:
  "\<exists>v. snd (addBlock SHA256 now self block) = Resolved v"
  by (cases "chain self = []") (simp_all add: addBlock_empty addBlock_nonempty Let_def)

lemma find_tip:
  assumes "xs \<noteq> []" and "\<forall>i<length xs. height (xs ! i) = int i"
  shows "find (\<lambda>b. height b = int (length xs) - 1) xs = Some (last xs)"
proof -
  let ?n = "length xs - 1"
  have n: "?n < length xs" using assms(1) by simp
  have "height (xs ! ?n) = int (length xs) - 1"
    using assms(2) n by (metis of_nat_1 of_nat_diff less_eq_Suc_le length_greater_0_conv assms(1) One_nat_def)
  moreover have "\<forall>j<?n. height (xs ! j) \<noteq> int (length xs) - 1"
    using assms(2) by auto
  ultimately show ?thesis
    using n assms(1) by (auto simp: find_Some_iff last_conv_nth intro!: exI[of _ ?n])
qed

lemma store_inv_Blockchain:
  assumes "\<And>b. SHA256 b \<noteq> []"
  shows "store_inv (Blockchain SHA256 now)"
  using assms
  by (simp add: Blockchain_def initializeChain_def emptyStore_def addBlock_empty Let_def
      store_inv_def Block_def)

lemma store_inv_addBlock:
  assumes sha: "\<And>b. SHA256 b \<noteq> []" and inv: "store_inv s"
  shows "store_inv (fst (addBlock SHA256 now s block))"
proof -
  from inv have ne: "chain s \<noteq> []"
    and hts: "\<forall>i<length (chain s). height (chain s ! i) = int i"
    and ch: "chain_height s = int (length (chain s)) - 1"
    and hs: "\<forall>i<length (chain s). truthy (hash (chain s ! i))"
    and gen: "previousBlockHash (chain s ! 0) = Null"
    and lnk: "\<forall>i<length (chain s). 0 < i \<longrightarrow>
        previousBlockHash (chain s ! i) = hash (chain s ! (i - 1))"
    by (simp_all add: store_inv_def)
  have tip: "find (\<lambda>b. height b = chain_height s) (chain s) = Some (last (chain s))"
    using find_tip[OF ne hts] ch by simp
  have tiph: "truthy (hash (last (chain s)))"
    using hs ne by (simp add: last_conv_nth)
  define b where "b = block\<lparr>time := Some now, previousBlockHash := hash (last (chain s)),
                    height := chain_height s + 1\<rparr>"
  define b' where "b' = b\<lparr>hash := Str (SHA256 b)\<rparr>"
  have eq: "fst (addBlock SHA256 now s block) =
      \<lparr>chain = chain s @ [b'], chain_height = chain_height s + 1\<rparr>"
    using ne tip tiph by (simp add: addBlock_nonempty Let_def b_def b'_def)
  have len: "0 < length (chain s)" using ne by simp
  have "\<forall>i<length (chain s @ [b']). height ((chain s @ [b']) ! i) = int i"
    using hts ch by (auto simp: nth_append b'_def b_def)
  moreover have "\<forall>i<length (chain s @ [b']). truthy (hash ((chain s @ [b']) ! i))"
    using hs sha by (auto simp: nth_append b'_def)
  moreover have "previousBlockHash ((chain s @ [b']) ! 0) = Null"
    using gen len by (simp add: nth_append)
  moreover have "\<forall>i<length (chain s @ [b']). 0 < i \<longrightarrow>
        previousBlockHash ((chain s @ [b']) ! i) = hash ((chain s @ [b']) ! (i - 1))"
  proof (intro allI impI)
    fix i assume i: "i < length (chain s @ [b'])" "0 < i"
    show "previousBlockHash ((chain s @ [b']) ! i) = hash ((chain s @ [b']) ! (i - 1))"
    proof (cases "i < length (chain s)")
      case True
      moreover from True have "i - 1 < length (chain s)" by simp
      ultimately show ?thesis using lnk i by (simp add: nth_append)
    next
      case False
      then have "i = length (chain s)" using i by simp
      then show ?thesis using ne by (simp add: nth_append b'_def b_def last_conv_nth)
    qed
  qed
  ultimately show ?thesis
    using ch by (simp add: eq store_inv_def)
qed

lemma store_inv_admissions:
  assumes sha: "\<And>b. SHA256 b \<noteq> []"
  shows "store_inv s \<Longrightarrow> store_inv (admissions SHA256 s adds)"
proof (induction adds arbitrary: s)
  case Nil
  then show ?case by simp
next
  case (Cons a adds)
  obtain now block where a: "a = (now, block)" by (cases a)
  show ?case
    using Cons.IH[OF store_inv_addBlock[OF sha Cons.prems]] by (simp add: a)
qed

text \<open>
  Claim C4. \<open>_addBlock\<close> on a non-empty chain appends the block with the time of the
  clock, height the store's height plus one and the hash computed over the block as
  it stands before the hash is assigned, raises the store's height by one and
  resolves with the appended block. The block's previous hash is the hash of the
  first block whose height is the store's height when that block exists and has a
  hash; otherwise the previous hash is left as it came and the call still resolves.
  On an empty chain the block gets height 0, its previous hash is left as it came
  (unset for a block that has only its payload), the store's height becomes 0 and
  the promise resolves with the store itself.
\<close>

theorem addBlock_contract:
  "(chain self \<noteq> [] \<longrightarrow>
      (\<exists>b. addBlock SHA256 now self block =
             (\<lparr>chain = chain self @ [b], chain_height = chain_height self + 1\<rparr>,
              Resolved (TheBlock b)) \<and>
           height b = chain_height self + 1 \<and>
           hash b = Str (SHA256 (b\<lparr>hash := hash block\<rparr>)) \<and>
           body b = body block \<and> time b = Some now \<and>
           (case find (\<lambda>x. height x = chain_height self) (chain self) of
              Some tip \<Rightarrow>
                if truthy (hash tip) then previousBlockHash b = hash tip
                else previousBlockHash b = previousBlockHash block
            | None \<Rightarrow> previousBlockHash b = previousBlockHash block))) \<and>
   (chain self = [] \<longrightarrow>
      (\<exists>b. addBlock SHA256 now self block =
             (\<lparr>chain = [b], chain_height = 0\<rparr>,
              Resolved (Self \<lparr>chain = [b], chain_height = 0\<rparr>)) \<and>
           height b = 0 \<and>
           previousBlockHash b = previousBlockHash block \<and>
           hash b = Str (SHA256 (b\<lparr>hash := hash block\<rparr>)) \<and>
           body b = body block \<and> time b = Some now))"
proof (cases "chain self = []")
  case True
  then show ?thesis
    by (simp add: addBlock_empty Let_def)
next
  case False
  then show ?thesis
    by (simp add: addBlock_nonempty Let_def split: option.splits)
qed

text \<open>
  The contract at a store that holds a genesis block with hash \<open>h0\<close>: the admitted
  star block has height 1 and previous hash \<open>h0\<close>, and the promise resolves with it.
\<close>

theorem addBlock_contract_witness:
  "chain \<lparr>chain = [\<lparr>hash = Str ''h0'', height = 0, body = Text ''Genesis Block'',
                     time = Some ''1700000000'', previousBlockHash = Null\<rparr>],
          chain_height = 0\<rparr> \<noteq> [] \<and>
   (\<exists>b. snd (addBlock (\<lambda>b. ''h1'') ''1700000100''
             \<lparr>chain = [\<lparr>hash = Str ''h0'', height = 0, body = Text ''Genesis Block'',
                        time = Some ''1700000000'', previousBlockHash = Null\<rparr>],
              chain_height = 0\<rparr>
             (Block (Text ''a star''))) = Resolved (TheBlock b) \<and>
        height b = 1 \<and> previousBlockHash b = Str ''h0'' \<and> hash b = Str ''h1'')"
  using addBlock_contract
    [of "\<lparr>chain = [\<lparr>hash = Str ''h0'', height = 0, body = Text ''Genesis Block'',
                     time = Some ''1700000000'', previousBlockHash = Null\<rparr>],
          chain_height = 0\<rparr>"
        "\<lambda>b. ''h1''" "''1700000100''" "Block (Text ''a star'')"]
  by auto

text \<open>
  Claim C5. After construction and any sequence of admissions, with a digest that
  is never the empty string (a SHA-256 digest printed in hexadecimal has 64
  characters): the height of the block at index \<open>i\<close> is \<open>i\<close>, the store's height is the
  length of the chain minus one, the genesis block has height 0 and no previous
  hash, and every later block's previous hash is the hash of the block before it.
  The store the constructor starts from is empty and has height \<open>-1\<close>.
\<close>

theorem chain_store_invariant:
  assumes "\<And>b. SHA256 b \<noteq> []"
  shows "chain emptyStore = [] \<and> chain_height emptyStore = - 1 \<and>
    (let s = admissions SHA256 (Blockchain SHA256 now) adds in
       chain s \<noteq> [] \<and>
       (\<forall>i<length (chain s). height (chain s ! i) = int i) \<and>
       chain_height s = int (length (chain s)) - 1 \<and>
       height (chain s ! 0) = 0 \<and>
       previousBlockHash (chain s ! 0) = Null \<and>
       (\<forall>i<length (chain s). 0 < i \<longrightarrow>
          previousBlockHash (chain s ! i) = hash (chain s ! (i - 1))))"
proof -
  have "store_inv (admissions SHA256 (Blockchain SHA256 now) adds)"
    by (rule store_inv_admissions[OF assms store_inv_Blockchain[OF assms]])
  then show ?thesis
    by (simp add: store_inv_def emptyStore_def Let_def)
qed

text \<open>
  The invariant at a store built with a digest that prefixes the block's time with
  \<open>#\<close>, after the genesis block and one admission.
\<close>

theorem chain_store_invariant_witness:
  "(\<forall>b. CHR ''#'' # (case time b of None \<Rightarrow> [] | Some t \<Rightarrow> t) \<noteq> []) \<and>
   (let s = admissions (\<lambda>b. CHR ''#'' # (case time b of None \<Rightarrow> [] | Some t \<Rightarrow> t))
              (Blockchain (\<lambda>b. CHR ''#'' # (case time b of None \<Rightarrow> [] | Some t \<Rightarrow> t))
                 ''1700000000'')
              [(''1700000100'', Block (Text ''a star''))]
    in length (chain s) = 2 \<and> chain_height s = 1 \<and>
       height (chain s ! 0) = 0 \<and> height (chain s ! 1) = 1 \<and>
       previousBlockHash (chain s ! 0) = Null \<and>
       previousBlockHash (chain s ! 1) = hash (chain s ! 0) \<and>
       hash (chain s ! 0) = Str ''#1700000000'')"
proof -
  have digest: "\<And>b. CHR ''#'' # (case time b of None \<Rightarrow> [] | Some t \<Rightarrow> t) \<noteq> []"
    by simp
  show ?thesis
    using chain_store_invariant
      [of "\<lambda>b. CHR ''#'' # (case time b of None \<Rightarrow> [] | Some t \<Rightarrow> t)"
          "''1700000000''" "[(''1700000100'', Block (Text ''a star''))]", OF digest]
    by (simp add: Blockchain_def initializeChain_def emptyStore_def addBlock_def Block_def
        resolve_def Let_def)
qed

section \<open>Properties of the submission of a star\<close>

text \<open>The three checks of \<open>submitStar\<close>, in the order of the source.\<close>

lemma submitStar_unfold:
  "submitStar verify SHA256 now now' self address message signature star =
    (if length (split CHR '':'' message) = 3 then
       if truthy_num (parseInt (split CHR '':'' message ! 1)) \<and>
          less_js (minus_js (parseInt now) (parseInt (split CHR '':'' message ! 1))) (Num 300)
       then
         if \<not> verify message address signature then
           (self, Rejected ''Bitcoin message unverified.'')
         else addBlock SHA256 now' self (Block (StarData address message signature star))
       else (self, Rejected ''Incorrect time'')
     else (self, Rejected ''Incorrect message format''))"
proof (cases "chain self = []")
  case True
  then show ?thesis
    by (simp add: submitStar_def addBlock_empty resolve_def reject_def Let_def)
next
  case False
  then show ?thesis
    by (simp add: submitStar_def addBlock_nonempty resolve_def reject_def Let_def)
qed

text \<open>
  The time check as the code makes it, for a clock that reads a number: the
  submission is rejected when the time stamp is \<open>NaN\<close> or zero, or when 300 seconds
  or more have elapsed.
\<close>

lemma submitStar_time_check:
  assumes "length (split CHR '':'' message) = 3" and "parseInt now = Num c"
  shows "snd (submitStar verify SHA256 now now' self address message signature star) =
      Rejected ''Incorrect time''
    \<longleftrightarrow> (case parseInt (split CHR '':'' message ! 1) of
           NaN \<Rightarrow> True
         | Num m \<Rightarrow> m = 0 \<or> 300 \<le> c - m)"
  using assms
    addBlock_resolved[of SHA256 now' self "Block (StarData address message signature star)"]
  by (cases "parseInt (split CHR '':'' message ! 1)") (auto simp: submitStar_unfold)

text \<open>The strings of the examples below, split and parsed.\<close>

lemma trimStart_no_white_space: "whiteSpaceLength s = 0 \<Longrightarrow> trimStart s = s"
  by simp

lemmas parseInt_eval =
  parseInt_def trimStart_no_white_space whiteSpaceLength_def isRadixDigit_def digitOf_def
  radixValue_def Let_def

lemma split_example:
  "split CHR '':'' ''addr:1700000000:starRegistry'' = [''addr'', ''1700000000'', ''starRegistry'']"
  by (simp add: split_def)

lemma split_future_example:
  "split CHR '':'' ''addr:1800000000:starRegistry'' = [''addr'', ''1800000000'', ''starRegistry'']"
  by (simp add: split_def)

lemma split_short_example:
  "split CHR '':'' ''addr:1700000000'' = [''addr'', ''1700000000'']"
  by (simp add: split_def)

lemma parseInt_examples:
  "parseInt ''1700000000'' = Num 1700000000"
  "parseInt ''1700000299'' = Num 1700000299"
  "parseInt ''1700000300'' = Num 1700000300"
  "parseInt ''1800000000'' = Num 1800000000"
  by (simp_all add: parseInt_eval del: trimStart.simps)

text \<open>
  Claim C7. \<open>submitStar\<close> rejects with \<open>Incorrect message format\<close> exactly when
  splitting the message at the colons does not give three pieces. The condition
  does not mention \<open>verify\<close>, the signature or the clock: the rejection is the same
  whether or not the signature is valid.
\<close>

theorem submitStar_format:
  "snd (submitStar verify SHA256 now now' self address message signature star) =
     Rejected ''Incorrect message format''
   \<longleftrightarrow> length (split CHR '':'' message) \<noteq> 3"
  using addBlock_resolved[of SHA256 now' self "Block (StarData address message signature star)"]
  by (auto simp: submitStar_unfold)

text \<open>
  A message of two pieces, with a signature check that accepts everything, is
  rejected for its format.
\<close>

theorem submitStar_format_witness:
  "length (split CHR '':'' ''addr:1700000000'') \<noteq> 3 \<and>
   snd (submitStar (\<lambda>m a s. True) (\<lambda>b. ''h1'') ''1700000100'' ''1700000100''
          (Blockchain (\<lambda>b. ''h0'') ''1600000000'')
          ''addr'' ''addr:1700000000'' ''sig'' ''a star'') =
     Rejected ''Incorrect message format''"
  using submitStar_format
    [of "\<lambda>m a s. True" "\<lambda>b. ''h1''" "''1700000100''" "''1700000100''"
        "Blockchain (\<lambda>b. ''h0'') ''1600000000''"
        "''addr''" "''addr:1700000000''" "''sig''" "''a star''"]
  by (simp add: split_short_example)

text \<open>
  Claim C6. For a message of three pieces and a clock that reads a number of seconds
  \<open>c\<close> of at least 300 (any time from five minutes after the epoch on),
  \<open>submitStar\<close> rejects with \<open>Incorrect time\<close> exactly when the second piece does not
  parse to a positive integer or the elapsed time \<open>c - m\<close> is at least 300. In
  particular, with a signature that verifies, a submission at \<open>m + 299\<close> is resolved
  and one at \<open>m + 300\<close> or later is rejected with \<open>Incorrect time\<close>.
\<close>

theorem submitStar_time_window:
  assumes "length (split CHR '':'' message) = 3"
    and "parseInt now = Num c" and "300 \<le> c"
  shows
    "(snd (submitStar verify SHA256 now now' self address message signature star) =
        Rejected ''Incorrect time''
      \<longleftrightarrow> (case parseInt (split CHR '':'' message ! 1) of
             NaN \<Rightarrow> True
           | Num m \<Rightarrow> m \<le> 0 \<or> 300 \<le> c - m)) \<and>
     (\<forall>m. parseInt (split CHR '':'' message ! 1) = Num m \<and> 0 < m \<and> c = m + 299 \<and>
          verify message address signature \<longrightarrow>
          (\<exists>v. snd (submitStar verify SHA256 now now' self address message signature star) =
             Resolved v)) \<and>
     (\<forall>m. parseInt (split CHR '':'' message ! 1) = Num m \<and> 0 < m \<and> m + 300 \<le> c \<longrightarrow>
          snd (submitStar verify SHA256 now now' self address message signature star) =
            Rejected ''Incorrect time'')"
  using assms
    addBlock_resolved[of SHA256 now' self "Block (StarData address message signature star)"]
  by (cases "parseInt (split CHR '':'' message ! 1)") (auto simp: submitStar_unfold)

text \<open>
  A challenge of time 1700000000 with a signature that verifies: submitted at
  1700000299 it is admitted, submitted at 1700000300 it is rejected.
\<close>

theorem submitStar_time_window_witness:
  "length (split CHR '':'' ''addr:1700000000:starRegistry'') = 3 \<and>
   parseInt (split CHR '':'' ''addr:1700000000:starRegistry'' ! 1) = Num 1700000000 \<and>
   parseInt ''1700000299'' = Num (1700000000 + 299) \<and>
   parseInt ''1700000300'' = Num (1700000000 + 300) \<and>
   (\<exists>v. snd (submitStar (\<lambda>m a s. True) (\<lambda>b. ''h1'') ''1700000299'' ''1700000299''
     (Blockchain (\<lambda>b. ''h0'') ''1600000000'')
     ''addr'' ''addr:1700000000:starRegistry'' ''sig'' ''a star'') = Resolved v) \<and>
   snd (submitStar (\<lambda>m a s. True) (\<lambda>b. ''h1'') ''1700000300'' ''1700000300''
     (Blockchain (\<lambda>b. ''h0'') ''1600000000'')
     ''addr'' ''addr:1700000000:starRegistry'' ''sig'' ''a star'') = Rejected ''Incorrect time''"
  using submitStar_time_window
    [of "''addr:1700000000:starRegistry''" "''1700000299''" 1700000299
        "\<lambda>m a s. True" "\<lambda>b. ''h1''" "''1700000299''"
        "Blockchain (\<lambda>b. ''h0'') ''1600000000''" "''addr''" "''sig''" "''a star''"]
    submitStar_time_window
    [of "''addr:1700000000:starRegistry''" "''1700000300''" 1700000300
        "\<lambda>m a s. True" "\<lambda>b. ''h1''" "''1700000300''"
        "Blockchain (\<lambda>b. ''h0'') ''1600000000''" "''addr''" "''sig''" "''a star''"]
  by (simp add: split_example parseInt_examples)

text \<open>
  Claim C8. For a message of three pieces whose time stamp \<open>m\<close> is a non-zero
  integer with less than 300 seconds elapsed, and a signature that \<open>verify\<close> refuses,
  \<open>submitStar\<close> rejects with \<open>Bitcoin message unverified.\<close> and the store is the one
  it was called on: no block is appended and the height is not changed.
\<close>

theorem submitStar_unverified:
  assumes "length (split CHR '':'' message) = 3"
    and "parseInt (split CHR '':'' message ! 1) = Num m" and "m \<noteq> 0"
    and "parseInt now = Num c" and "c - m < 300"
    and "\<not> verify message address signature"
  shows "submitStar verify SHA256 now now' self address message signature star =
     (self, Rejected ''Bitcoin message unverified.'')"
  using assms by (simp add: submitStar_unfold)

text \<open>
  A challenge of time 1700000000 submitted at 1700000299 with a signature check
  that refuses everything.
\<close>

theorem submitStar_unverified_witness:
  "length (split CHR '':'' ''addr:1700000000:starRegistry'') = 3 \<and>
   parseInt (split CHR '':'' ''addr:1700000000:starRegistry'' ! 1) = Num 1700000000 \<and>
   parseInt ''1700000299'' = Num 1700000299 \<and>
   submitStar (\<lambda>m a s. False) (\<lambda>b. ''h1'') ''1700000299'' ''1700000299''
     (Blockchain (\<lambda>b. ''h0'') ''1600000000'')
     ''addr'' ''addr:1700000000:starRegistry'' ''sig'' ''a star'' =
   (Blockchain (\<lambda>b. ''h0'') ''1600000000'', Rejected ''Bitcoin message unverified.'')"
  using submitStar_unverified
    [of "''addr:1700000000:starRegistry''" 1700000000 "''1700000299''" 1700000299
        "\<lambda>m a s. False" "''addr''" "''sig''" "\<lambda>b. ''h1''" "''1700000299''"
        "Blockchain (\<lambda>b. ''h0'') ''1600000000''" "''a star''"]
  by (simp add: split_example parseInt_examples)

text \<open>
  Claim C10. The time check bounds the elapsed time from above only. For a message
  of three pieces whose time stamp \<open>m\<close> is a non-zero integer greater than the
  clock's reading \<open>c\<close>, the elapsed time \<open>c - m\<close> is negative, the submission is not
  rejected with \<open>Incorrect time\<close>, and it is admitted when the signature verifies.
\<close>

theorem submitStar_future:
  assumes "length (split CHR '':'' message) = 3"
    and "parseInt (split CHR '':'' message ! 1) = Num m" and "m \<noteq> 0"
    and "parseInt now = Num c" and "c < m"
  shows "minus_js (parseInt now) (parseInt (split CHR '':'' message ! 1)) = Num (c - m) \<and>
     c - m < 0 \<and>
     snd (submitStar verify SHA256 now now' self address message signature star) \<noteq>
       Rejected ''Incorrect time'' \<and>
     (verify message address signature \<longrightarrow>
        (\<exists>v. snd (submitStar verify SHA256 now now' self address message signature star) =
           Resolved v))"
  using assms
    addBlock_resolved[of SHA256 now' self "Block (StarData address message signature star)"]
  by (auto simp: submitStar_unfold)

text \<open>
  A challenge dated 1800000000, a hundred million seconds after the clock's
  1700000000, is admitted.
\<close>

theorem submitStar_future_witness:
  "length (split CHR '':'' ''addr:1800000000:starRegistry'') = 3 \<and>
   parseInt (split CHR '':'' ''addr:1800000000:starRegistry'' ! 1) = Num 1800000000 \<and>
   parseInt ''1700000000'' = Num 1700000000 \<and>
   (\<exists>v. snd (submitStar (\<lambda>m a s. True) (\<lambda>b. ''h1'') ''1700000000'' ''1700000000''
     (Blockchain (\<lambda>b. ''h0'') ''1600000000'')
     ''addr'' ''addr:1800000000:starRegistry'' ''sig'' ''a star'') = Resolved v)"
  using submitStar_future
    [of "''addr:1800000000:starRegistry''" 1800000000 "''1700000000''" 1700000000
        "\<lambda>m a s. True" "\<lambda>b. ''h1''" "''1700000000''"
        "Blockchain (\<lambda>b. ''h0'') ''1600000000''" "''addr''" "''sig''" "''a star''"]
  by (simp add: split_future_example parseInt_examples)

end
